theory Spec2Isabelle
  imports Main "HOL-Library.Word"
begin

section \<open>The flows handler of the console plugin (pkg/handler/flows.go)\<close>

text \<open>
  The handler reads the query parameters of a request, parses the filter expression into
  OR-groups of AND-ed key/value pairs, builds one Loki query per group and merges what the
  backend returns. Go strings are byte sequences, modelled as \<open>string\<close>; Go's \<open>int\<close> and
  \<open>int64\<close> are 64-bit two's-complement words; a Go \<open>error\<close> is a value of the datatype
  \<open>error\<close> below, and a function returning \<open>(T, error)\<close> returns \<open>error + T\<close>.
\<close>

subsection \<open>Errors\<close>

datatype num_err = ErrSyntax | ErrRange

text \<open>
  The error values the handler meets: \<open>errors.New(text)\<close>, \<open>url.EscapeError\<close> and
  \<open>*strconv.NumError{Func, Num, Err}\<close>.
\<close>

datatype error =
    ErrorsNew string
  | EscapeError string
  | NumError string string num_err

fun num_err_text :: "num_err \<Rightarrow> string" where
  "num_err_text ErrSyntax = ''invalid syntax''"
| "num_err_text ErrRange = ''value out of range''"

text \<open>
  The method \<open>err.Error()\<close>. Two of the messages quote their operand with
  \<open>strconv.Quote\<close>, whose Unicode tables are not part of this program: it is the
  parameter \<open>Quote\<close>.
\<close>

fun Error :: "(string \<Rightarrow> string) \<Rightarrow> error \<Rightarrow> string" where
  "Error Quote (ErrorsNew s) = s"
| "Error Quote (EscapeError s) = ''invalid URL escape '' @ Quote s"
| "Error Quote (NumError f n e) =
     ''strconv.'' @ f @ '': parsing '' @ Quote n @ '': '' @ num_err_text e"

subsection \<open>The library functions the handler calls\<close>

text \<open>
  \<open>strings.Split(s, sep)\<close> for a separator of one byte, as at the three call sites
  (\<open>"|"\<close>, \<open>"&"\<close>, \<open>"="\<close>): the pieces of \<open>s\<close> between the separators, in order. A
  string without the separator, the empty string too, gives one piece.
\<close>

fun splitFrom :: "char \<Rightarrow> string \<Rightarrow> string \<Rightarrow> string list" where
  "splitFrom sep cur [] = [cur]"
| "splitFrom sep cur (c # s) =
     (if c = sep then cur # splitFrom sep [] s else splitFrom sep (cur @ [c]) s)"

definition Split :: "string \<Rightarrow> char \<Rightarrow> string list" where
  "Split s sep = splitFrom sep [] s"

text \<open>\<open>ishex\<close> and \<open>unhex\<close> of net/url, on the byte's code.\<close>

definition ishex :: "char \<Rightarrow> bool" where
  "ishex c = (let n = (of_char c :: nat) in
     (48 \<le> n \<and> n \<le> 57) \<or> (97 \<le> n \<and> n \<le> 102) \<or> (65 \<le> n \<and> n \<le> 70))"

definition unhex :: "char \<Rightarrow> nat" where
  "unhex c = (let n = (of_char c :: nat) in
     if 48 \<le> n \<and> n \<le> 57 then n - 48
     else if 97 \<le> n \<and> n \<le> 102 then n - 97 + 10
     else if 65 \<le> n \<and> n \<le> 70 then n - 65 + 10
     else 0)"

text \<open>
  \<open>url.QueryUnescape\<close> runs twice over the string. The first pass returns an
  \<open>EscapeError\<close> holding up to three bytes from the first \<open>%\<close> that is not followed by
  two hexadecimal digits.
\<close>

fun unescape_check :: "string \<Rightarrow> error option" where
  "unescape_check [] = None"
| "unescape_check (c # s) =
     (if c = CHR ''%'' then
        (case s of
           a # b # t \<Rightarrow>
             if ishex a \<and> ishex b then unescape_check t
             else Some (EscapeError (take 3 (c # s)))
         | _ \<Rightarrow> Some (EscapeError (take 3 (c # s))))
      else unescape_check s)"

text \<open>
  The second pass writes the decoded bytes: \<open>%XY\<close> becomes the byte \<open>16 * X + Y\<close> and
  \<open>+\<close> becomes a space. The branch of a truncated escape is never taken: the first pass
  has returned before.
\<close>

fun unescape_write :: "string \<Rightarrow> string" where
  "unescape_write [] = []"
| "unescape_write (c # s) =
     (if c = CHR ''%'' then
        (case s of
           a # b # t \<Rightarrow> char_of (unhex a * 16 + unhex b) # unescape_write t
         | _ \<Rightarrow> [])
      else if c = CHR ''+'' then CHR '' '' # unescape_write s
      else c # unescape_write s)"

definition QueryUnescape :: "string \<Rightarrow> error + string" where
  "QueryUnescape s =
     (case unescape_check s of
        Some err \<Rightarrow> Inl err
      | None \<Rightarrow>
          if CHR ''%'' \<notin> set s \<and> CHR ''+'' \<notin> set s then Inr s
          else Inr (unescape_write s))"

subsection \<open>parseFilters\<close>

type_synonym keyValues = "string list"

text \<open>
  The inner loop of \<open>parseFilters\<close>: every filter of a group is split on \<open>=\<close> and
  appended to \<open>andFilters\<close> when the split has two parts.
\<close>

fun parseGroup :: "string list \<Rightarrow> keyValues list \<Rightarrow> keyValues list" where
  "parseGroup [] andFilters = andFilters"
| "parseGroup (f # filters) andFilters =
     (let pair = Split f (CHR ''='')
      in parseGroup filters (if length pair = 2 then andFilters @ [pair] else andFilters))"

text \<open>The outer loop: one list of pairs per group, appended to \<open>parsed\<close>.\<close>

fun parseGroups :: "string list \<Rightarrow> keyValues list list \<Rightarrow> keyValues list list" where
  "parseGroups [] parsed = parsed"
| "parseGroups (g # groups) parsed =
     (let andFilters = parseGroup (Split g (CHR ''&'')) []
      in parseGroups groups (parsed @ [andFilters]))"

definition parseFilters :: "string \<Rightarrow> error + keyValues list list" where
  "parseFilters raw =
     (case QueryUnescape raw of
        Inl err \<Rightarrow> Inl err
      | Inr decoded \<Rightarrow> Inr (parseGroups (Split decoded (CHR ''|'')) []))"

subsection \<open>Query parameters and integers\<close>

text \<open>
  \<open>url.Values\<close> is a map from a key to the list of its values; \<open>Get\<close> returns the first
  value of the key, and the empty string when the key is absent or has no value.
\<close>

type_synonym Values = "string \<rightharpoonup> string list"

definition Get :: "Values \<Rightarrow> string \<Rightarrow> string" where
  "Get v key = (case v key of None \<Rightarrow> [] | Some [] \<Rightarrow> [] | Some (x # _) \<Rightarrow> x)"

definition startTimeKey :: string where "startTimeKey = ''startTime''"
definition endTimeKey :: string where "endTimeKey = ''endTime''"
definition timeRangeKey :: string where "timeRangeKey = ''timeRange''"
definition limitKey :: string where "limitKey = ''limit''"
definition reporterKey :: string where "reporterKey = ''reporter''"
definition filtersKey :: string where "filtersKey = ''filters''"

type_synonym int64 = "64 word"

definition maxUint64 :: nat where "maxUint64 = 2 ^ 64 - 1"

text \<open>
  The digit loop of \<open>strconv.ParseUint(s, 10, 64)\<close>, the accumulator \<open>n\<close> being below
  \<open>2^64\<close>: a byte that is not a decimal digit is a syntax error; a product or a sum that
  leaves 64 bits is a range error.
\<close>

fun parseDigits :: "nat \<Rightarrow> string \<Rightarrow> num_err + nat" where
  "parseDigits n [] = Inr n"
| "parseDigits n (c # s) =
     (let k = (of_char c :: nat) in
      if 48 \<le> k \<and> k \<le> 57 then
        (if n \<ge> maxUint64 div 10 + 1 then Inl ErrRange
         else let n1 = n * 10 + (k - 48)
              in if n1 > maxUint64 then Inl ErrRange else parseDigits n1 s)
      else Inl ErrSyntax)"

definition ParseUint :: "string \<Rightarrow> num_err + nat" where
  "ParseUint s = (if s = [] then Inl ErrSyntax else parseDigits 0 s)"

text \<open>
  \<open>strconv.ParseInt(s, 10, 64)\<close>: an optional sign, then \<open>ParseUint\<close>; the magnitude
  must be below \<open>2^63\<close>, or at most \<open>2^63\<close> after a minus sign. The error names the
  function and the whole input.
\<close>

definition ParseInt :: "string \<Rightarrow> error + int64" where
  "ParseInt s =
     (case s of
        [] \<Rightarrow> Inl (NumError ''ParseInt'' s ErrSyntax)
      | c # t \<Rightarrow>
          (let neg = (c = CHR ''-'');
               s1 = (if c = CHR ''+'' \<or> c = CHR ''-'' then t else s)
           in case ParseUint s1 of
                Inl ErrSyntax \<Rightarrow> Inl (NumError ''ParseInt'' s ErrSyntax)
              | r \<Rightarrow>
                  (let un = (case r of Inr u \<Rightarrow> u | Inl _ \<Rightarrow> maxUint64) in
                   if \<not> neg \<and> un \<ge> 2 ^ 63 then Inl (NumError ''ParseInt'' s ErrRange)
                   else if neg \<and> un > 2 ^ 63 then Inl (NumError ''ParseInt'' s ErrRange)
                   else Inr (if neg then - word_of_nat un else word_of_nat un))))"

text \<open>The decimal digits of a natural number, most significant first.\<close>

fun decimal :: "nat \<Rightarrow> string" where
  "decimal n =
     (if n < 10 then [char_of (48 + n)]
      else decimal (n div 10) @ [char_of (48 + n mod 10)])"

declare decimal.simps [simp del]

text \<open>\<open>strconv.FormatInt(i, 10)\<close>: the decimal digits of the signed value, after a minus sign when it is negative.\<close>

definition FormatInt :: "int64 \<Rightarrow> string" where
  "FormatInt i =
     (if sint i < 0 then CHR ''-'' # decimal (nat (- sint i)) else decimal (nat (sint i)))"

subsection \<open>getStartTime and getLimit\<close>

text \<open>
  \<open>getStartTime\<close> reads the clock: \<open>now\<close> is the value of \<open>time.Now().Unix()\<close>. The
  subtraction is that of \<open>int64\<close> and wraps around.
\<close>

definition getStartTime :: "(string \<Rightarrow> string) \<Rightarrow> int64 \<Rightarrow> Values \<Rightarrow> error + string" where
  "getStartTime Quote now params =
     (let start = Get params startTimeKey in
      if length start = 0 then
        (let tr = Get params timeRangeKey in
         if length tr > 0 then
           (case ParseInt tr of
              Inl err \<Rightarrow> Inl (ErrorsNew (''Could not parse time range: '' @ Error Quote err))
            | Inr r \<Rightarrow> Inr (FormatInt (now - r)))
         else Inr start)
      else Inr start)"

text \<open>\<open>getLimit\<close> returns the limit as it was given and as an integer, zero when it was not given.\<close>

definition getLimit :: "(string \<Rightarrow> string) \<Rightarrow> Values \<Rightarrow> error + string \<times> int64" where
  "getLimit Quote params =
     (let limit = Get params limitKey in
      if length limit > 0 then
        (case ParseInt limit of
           Inl err \<Rightarrow> Inl (ErrorsNew (''Could not parse limit: '' @ Error Quote err))
         | Inr l \<Rightarrow> Inr (limit, l))
      else Inr (limit, 0))"

subsection \<open>The collaborators of getFlows\<close>

text \<open>
  \<open>getFlows\<close> calls the query builder and the stream merger of package \<open>loki\<close> and the
  two fetch helpers of the handler package. They are the fields of a record that
  \<open>getFlows\<close> receives, under their own names: \<open>'cfg\<close> is \<open>loki.Config\<close>, \<open>'qb\<close> the
  builder, \<open>'cl\<close> the \<open>httpclient.Caller\<close>, \<open>'m\<close> the merger and \<open>'resp\<close> the
  \<open>model.AggregatedQueryResponse\<close>. A method that changes its receiver returns the
  changed receiver beside its result; a fetch helper returns its status code, its error
  (\<open>None\<close> for \<open>nil\<close>) and the merger it has fed.
\<close>

record ('cfg, 'qb, 'cl, 'm, 'resp) collaborators =
  NewFlowQueryBuilder :: "'cfg \<Rightarrow> string \<Rightarrow> string \<Rightarrow> string \<Rightarrow> string \<Rightarrow> 'qb"
  Filters :: "'qb \<Rightarrow> keyValues list \<Rightarrow> error option \<times> 'qb"
  Build :: "'qb \<Rightarrow> string"
  NewStreamMerger :: "int64 \<Rightarrow> 'm"
  merger_Get :: "'m \<Rightarrow> 'resp"
  fetchSingle :: "'cl \<Rightarrow> string \<Rightarrow> 'm \<Rightarrow> (int \<times> error option) \<times> 'm"
  fetchParallel :: "'cl \<Rightarrow> string list \<Rightarrow> 'm \<Rightarrow> (int \<times> error option) \<times> 'm"

definition StatusOK :: int where "StatusOK = 200"
definition StatusBadRequest :: int where "StatusBadRequest = 400"

subsection \<open>getFlows\<close>

text \<open>
  The calls \<open>getFlows\<close> makes to the fetch helpers are written down beside its results:
  which helper, and with which queries.
\<close>

datatype fetch_call = FetchSingle string | FetchParallel "string list"

type_synonym 'resp flows_result = "fetch_call list \<times> 'resp option \<times> int \<times> error option"

text \<open>
  The loop over the filter groups (lines 130 to 137): a new builder for each group, the
  built query appended to \<open>queries\<close>; a group that the builder rejects ends the request.
\<close>

fun buildQueries ::
  "('cfg, 'qb, 'cl, 'm, 'resp) collaborators \<Rightarrow> (string \<Rightarrow> string) \<Rightarrow> 'cfg \<Rightarrow>
   string \<Rightarrow> string \<Rightarrow> string \<Rightarrow> string \<Rightarrow> keyValues list list \<Rightarrow> string list \<Rightarrow>
   error + string list" where
  "buildQueries c Quote cfg start end' limit reporter [] queries = Inr queries"
| "buildQueries c Quote cfg start end' limit reporter (g # groups) queries =
     (let qb = NewFlowQueryBuilder c cfg start end' limit reporter in
      case Filters c qb g of
        (Some err, qb') \<Rightarrow> Inl (ErrorsNew (''Can't build query: '' @ Error Quote err))
      | (None, qb') \<Rightarrow>
          buildQueries c Quote cfg start end' limit reporter groups (queries @ [Build c qb']))"

text \<open>Lines 126 to 160 of \<open>getFlows\<close>: the merger, the choice between the two fetch helpers, the result.\<close>

definition fetchFlows ::
  "('cfg, 'qb, 'cl, 'm, 'resp) collaborators \<Rightarrow> (string \<Rightarrow> string) \<Rightarrow> 'cfg \<Rightarrow> 'cl \<Rightarrow>
   string \<Rightarrow> string \<Rightarrow> string \<Rightarrow> int64 \<Rightarrow> string \<Rightarrow> keyValues list list \<Rightarrow>
   'resp flows_result" where
  "fetchFlows c Quote cfg client start end' limit reqLimit reporter filterGroups =
     (let merger = NewStreamMerger c reqLimit in
      if length filterGroups > 1 then
        (case buildQueries c Quote cfg start end' limit reporter filterGroups [] of
           Inl err \<Rightarrow> ([], None, StatusBadRequest, Some err)
         | Inr queries \<Rightarrow>
             (case fetchParallel c client queries merger of
                ((code, Some err), merger') \<Rightarrow>
                  ([FetchParallel queries], None, code,
                   Some (ErrorsNew (''Error while fetching flows from Loki: '' @ Error Quote err)))
              | ((code, None), merger') \<Rightarrow>
                  ([FetchParallel queries], Some (merger_Get c merger'), StatusOK, None)))
      else
        (let qb = NewFlowQueryBuilder c cfg start end' limit reporter in
         case (case filterGroups of [] \<Rightarrow> (None, qb) | g # _ \<Rightarrow> Filters c qb g) of
           (Some err, qb') \<Rightarrow> ([], None, StatusBadRequest, Some err)
         | (None, qb') \<Rightarrow>
             (let query = Build c qb' in
              case fetchSingle c client query merger of
                ((code, Some err), merger') \<Rightarrow>
                  ([FetchSingle query], None, code,
                   Some (ErrorsNew (''Error while fetching flows from Loki: '' @ Error Quote err)))
              | ((code, None), merger') \<Rightarrow>
                  ([FetchSingle query], Some (merger_Get c merger'), StatusOK, None))))"

text \<open>Lines 110 to 124: the parameters are read and parsed, each failure ending the request with status 400.\<close>

definition getFlows ::
  "('cfg, 'qb, 'cl, 'm, 'resp) collaborators \<Rightarrow> (string \<Rightarrow> string) \<Rightarrow> int64 \<Rightarrow> 'cfg \<Rightarrow> 'cl \<Rightarrow>
   Values \<Rightarrow> 'resp flows_result" where
  "getFlows c Quote now cfg client params =
     (case getStartTime Quote now params of
        Inl err \<Rightarrow> ([], None, StatusBadRequest, Some err)
      | Inr start \<Rightarrow>
          (let end' = Get params endTimeKey in
           case getLimit Quote params of
             Inl err \<Rightarrow> ([], None, StatusBadRequest, Some err)
           | Inr (limit, reqLimit) \<Rightarrow>
               (let reporter = Get params reporterKey;
                    rawFilters = Get params filtersKey
                in case parseFilters rawFilters of
                     Inl err \<Rightarrow> ([], None, StatusBadRequest, Some err)
                   | Inr filterGroups \<Rightarrow>
                       fetchFlows c Quote cfg client start end' limit reqLimit reporter
                         filterGroups)))"

subsection \<open>The stream merger, the fetch helpers and the query builder\<close>

text \<open>
  The source of the stream merger, of the two fetch helpers and of the query builder is
  not in the excerpt. The definitions of this subsection follow what the spec says of
  them; they are the collaborators on which the properties of \<open>getFlows\<close> are run.
\<close>

text \<open>
  Modelled from the spec: the state of the stream merger of package \<open>loki\<close>, which "owns
  the aggregate result limit and accumulates records from one or more fetch operations".
\<close>

record 'r StreamMerger =
  maxRecords :: int64
  entries :: "'r list"

text \<open>
  Modelled from the spec: \<open>loki.NewStreamMerger\<close>, "constructed with a maximum record
  count (0 meaning unbounded)", holding no record yet.
\<close>

definition NewStreamMerger_spec :: "int64 \<Rightarrow> 'r StreamMerger" where
  "NewStreamMerger_spec l = \<lparr>maxRecords = l, entries = []\<rparr>"

text \<open>
  Modelled from the spec: the cap of the merger is reached when the maximum is not 0 and
  the merger holds that many records.
\<close>

definition capReached :: "'r StreamMerger \<Rightarrow> bool" where
  "capReached m = (sint (maxRecords m) \<noteq> 0 \<and> sint (maxRecords m) \<le> int (length (entries m)))"

text \<open>
  Modelled from the spec: one record arrives at the merger. "Once the cap is reached,
  excess records are not added"; the merger is "deduplicating", so a record it holds
  already is left out; the others are kept "in arrival order".
\<close>

definition addRecord :: "'r StreamMerger \<Rightarrow> 'r \<Rightarrow> 'r StreamMerger" where
  "addRecord m r =
     (if capReached m then m
      else if r \<in> set (entries m) then m
      else m\<lparr>entries := entries m @ [r]\<rparr>)"

text \<open>
  Modelled from the spec: the method \<open>Add\<close> of the merger, which "accepts a raw result
  batch": its records arrive one after the other.
\<close>

fun Add_spec :: "'r StreamMerger \<Rightarrow> 'r list \<Rightarrow> 'r StreamMerger" where
  "Add_spec m [] = m"
| "Add_spec m (r # batch) = Add_spec (addRecord m r) batch"

text \<open>
  Modelled from the spec: the method \<open>Get\<close> of the merger, which "exposes the final
  aggregated result via a read accessor".
\<close>

definition Get_spec :: "'r StreamMerger \<Rightarrow> 'r list" where
  "Get_spec m = entries m"

text \<open>
  Modelled from the spec: the backend behind \<open>httpclient.Caller\<close>, which "given a built
  query string, performs the network call and returns a raw result payload or an error
  carrying a status code".
\<close>

type_synonym 'r backend = "string \<Rightarrow> (int \<times> error) + 'r list"

text \<open>
  Modelled from the spec: \<open>fetchSingle\<close>, which executes one query and "feeds the raw
  result into the merger"; the status code of an error is that of the failing fetch.
\<close>

definition fetchSingle_spec ::
  "'r backend \<Rightarrow> string \<Rightarrow> 'r StreamMerger \<Rightarrow> (int \<times> error option) \<times> 'r StreamMerger" where
  "fetchSingle_spec client query merger =
     (case client query of
        Inl (code, err) \<Rightarrow> ((code, Some err), merger)
      | Inr batch \<Rightarrow> ((StatusOK, None), Add_spec merger batch))"

text \<open>
  Modelled from the spec: \<open>fetchParallel\<close>, which dispatches all queries, collects "each
  result as it completes" and feeds each into the merger; "a failure from any one
  concurrent query surfaces as the overall failure (first error wins)". The order of
  completion, which the spec leaves open, is here the order of the queries.
\<close>

fun fetchParallel_spec ::
  "'r backend \<Rightarrow> string list \<Rightarrow> 'r StreamMerger \<Rightarrow> (int \<times> error option) \<times> 'r StreamMerger" where
  "fetchParallel_spec client [] merger = ((StatusOK, None), merger)"
| "fetchParallel_spec client (query # queries) merger =
     (case client query of
        Inl (code, err) \<Rightarrow> ((code, Some err), merger)
      | Inr batch \<Rightarrow> fetchParallel_spec client queries (Add_spec merger batch))"

text \<open>
  Modelled from the spec: the state of the query builder of package \<open>loki\<close>, which "builds
  a single query string from base parameters (time range, limit, reporter) plus one
  AND-group of filters".
\<close>

record FlowQueryBuilder =
  qb_base :: "string list"
  qb_filters :: "keyValues list"

text \<open>Modelled from the spec: \<open>loki.NewFlowQueryBuilder\<close>, a builder with the base parameters and no filter.\<close>

definition NewFlowQueryBuilder_spec ::
  "unit \<Rightarrow> string \<Rightarrow> string \<Rightarrow> string \<Rightarrow> string \<Rightarrow> FlowQueryBuilder" where
  "NewFlowQueryBuilder_spec cfg start end' limit reporter =
     \<lparr>qb_base = [start, end', limit, reporter], qb_filters = []\<rparr>"

text \<open>Modelled from the spec: the key of a pair, its first part.\<close>

definition keyOf :: "keyValues \<Rightarrow> string" where
  "keyOf kv = (case kv of [] \<Rightarrow> [] | k # _ \<Rightarrow> k)"

text \<open>
  Modelled from the spec: the method \<open>Filters\<close> of the builder, by which a "filter group
  [is] rejected by query builder, e.g., unknown key". The known keys are a parameter; the
  first pair with another key is the error, and a group without one is added to the
  builder.
\<close>

definition Filters_spec ::
  "string list \<Rightarrow> FlowQueryBuilder \<Rightarrow> keyValues list \<Rightarrow> error option \<times> FlowQueryBuilder" where
  "Filters_spec known qb g =
     (case filter (\<lambda>kv. keyOf kv \<notin> set known) g of
        [] \<Rightarrow> (None, qb\<lparr>qb_filters := qb_filters qb @ g\<rparr>)
      | kv # _ \<Rightarrow> (Some (ErrorsNew (''unknown filter key: '' @ keyOf kv)), qb))"

text \<open>
  Modelled from the spec: the method \<open>Build\<close> of the builder. The spec leaves the syntax
  of the query to the builder; this one writes the base parameters, each closed by a
  semicolon, then the pairs, their parts closed by commas and each pair by a semicolon.
\<close>

definition Build_spec :: "FlowQueryBuilder \<Rightarrow> string" where
  "Build_spec qb =
     concat (map (\<lambda>s. s @ '';'') (qb_base qb)) @
     concat (map (\<lambda>kv. concat (map (\<lambda>s. s @ '','') kv) @ '';'') (qb_filters qb))"

text \<open>Modelled from the spec: the collaborators above, as \<open>getFlows\<close> receives them.\<close>

definition collaborators_spec ::
  "string list \<Rightarrow> (unit, FlowQueryBuilder, 'r backend, 'r StreamMerger, 'r list) collaborators" where
  "collaborators_spec known =
     \<lparr>NewFlowQueryBuilder = NewFlowQueryBuilder_spec,
      Filters = Filters_spec known,
      Build = Build_spec,
      NewStreamMerger = NewStreamMerger_spec,
      merger_Get = Get_spec,
      fetchSingle = fetchSingle_spec,
      fetchParallel = fetchParallel_spec\<rparr>"

section \<open>Properties of parseFilters\<close>

lemma parseGroup_append:
  "parseGroup filters acc =
     acc @ filter (\<lambda>p. length p = 2) (map (\<lambda>f. Split f (CHR ''='')) filters)"
  by (induction filters arbitrary: acc) (simp_all add: Let_def)

lemma parseGroups_append:
  "parseGroups groups acc =
     acc @ map (\<lambda>g. filter (\<lambda>p. length p = 2)
                  (map (\<lambda>f. Split f (CHR ''='')) (Split g (CHR ''&'')))) groups"
  by (induction groups arbitrary: acc) (simp_all add: parseGroup_append)

lemma length_splitFrom: "length (splitFrom sep cur s) = Suc (count_list s sep)"
  by (induction s arbitrary: cur) simp_all

lemma length_Split: "length (Split s sep) = Suc (count_list s sep)"
  by (simp add: Split_def length_splitFrom)

lemma parseFilters_example_groups:
  "parseGroups (Split ''a=1&b=2|c=3'' (CHR ''|'')) [] =
     [[[''a'', ''1''], [''b'', ''2'']], [[''c'', ''3'']]]"
  by (simp add: Split_def)

lemma unescape_check_no_percent: "CHR ''%'' \<notin> set s \<Longrightarrow> unescape_check s = None"
  by (induction s) auto

lemma QueryUnescape_plain:
  "CHR ''%'' \<notin> set s \<Longrightarrow> CHR ''+'' \<notin> set s \<Longrightarrow> QueryUnescape s = Inr s"
  by (simp add: QueryUnescape_def unescape_check_no_percent)

text \<open>
  Claim C6. \<open>parseFilters\<close> implements the grammar: the decoded string is split on
  \<open>|\<close> into groups, in order, each group is split on \<open>&\<close> into candidate pairs, in
  order, and each candidate is split on \<open>=\<close>, those of two parts being kept; a string
  that cannot be unescaped gives the error of the decoder. Parsing \<open>a=1&b=2|c=3\<close>
  gives two groups, the first with the pairs \<open>(a, 1)\<close> and \<open>(b, 2)\<close> in that order, the
  second with the pair \<open>(c, 3)\<close>.
\<close>

theorem C6_parseFilters_grammar:
  "parseFilters raw =
     (case QueryUnescape raw of
        Inl err \<Rightarrow> Inl err
      | Inr decoded \<Rightarrow>
          Inr (map (\<lambda>g. filter (\<lambda>pair. length pair = 2)
                      (map (\<lambda>f. Split f (CHR ''='')) (Split g (CHR ''&''))))
                 (Split decoded (CHR ''|''))))
   \<and> parseFilters ''a=1&b=2|c=3'' = Inr [[[''a'', ''1''], [''b'', ''2'']], [[''c'', ''3'']]]"
proof
  show "parseFilters raw =
     (case QueryUnescape raw of
        Inl err \<Rightarrow> Inl err
      | Inr decoded \<Rightarrow>
          Inr (map (\<lambda>g. filter (\<lambda>pair. length pair = 2)
                      (map (\<lambda>f. Split f (CHR ''='')) (Split g (CHR ''&''))))
                 (Split decoded (CHR ''|''))))"
    by (simp add: parseFilters_def parseGroups_append split: sum.splits)
next
  have "QueryUnescape ''a=1&b=2|c=3'' = Inr ''a=1&b=2|c=3''"
    by (rule QueryUnescape_plain) simp_all
  then show "parseFilters ''a=1&b=2|c=3'' =
      Inr [[[''a'', ''1''], [''b'', ''2'']], [[''c'', ''3'']]]"
    by (simp add: parseFilters_def parseFilters_example_groups)
qed

lemma splitFrom_no_sep: "count_list s sep = 0 \<Longrightarrow> splitFrom sep cur s = [cur @ s]"
  by (induction s arbitrary: cur) (simp_all split: if_splits)

lemma splitFrom_one_sep:
  "count_list s sep = 1 \<Longrightarrow>
   splitFrom sep cur s =
     [cur @ takeWhile (\<lambda>x. x \<noteq> sep) s, tl (dropWhile (\<lambda>x. x \<noteq> sep) s)]"
proof (induction s arbitrary: cur)
  case Nil
  then show ?case by simp
next
  case (Cons c s)
  show ?case
  proof (cases "c = sep")
    case True
    with Cons.prems have "count_list s sep = 0" by simp
    with True show ?thesis by (simp add: splitFrom_no_sep)
  next
    case False
    with Cons.prems have "count_list s sep = 1" by simp
    from Cons.IH [OF this] False show ?thesis by simp
  qed
qed

lemma Split_one_sep:
  "count_list s sep = 1 \<Longrightarrow>
   Split s sep = [takeWhile (\<lambda>x. x \<noteq> sep) s, tl (dropWhile (\<lambda>x. x \<noteq> sep) s)]"
  by (simp add: Split_def splitFrom_one_sep)

lemma kept_pairs:
  "filter (\<lambda>p. length p = 2) (map (\<lambda>f. Split f sep) fs) =
   map (\<lambda>f. [takeWhile (\<lambda>x. x \<noteq> sep) f, tl (dropWhile (\<lambda>x. x \<noteq> sep) f)])
     (filter (\<lambda>f. count_list f sep = 1) fs)"
  by (induction fs) (simp_all add: length_Split Split_one_sep)

text \<open>
  Claim C3, as the code has it. A candidate is kept exactly when it holds one \<open>=\<close>, that
  is when splitting it on \<open>=\<close> gives two parts: the text before the \<open>=\<close> and the text
  after it, either of which may be empty. A candidate with no \<open>=\<close> or with more than
  one is dropped, and dropping raises no error. Parsing \<open>a=1&bad|c=3\<close> gives the two
  groups \<open>[[a=1], [c=3]]\<close>.
\<close>

theorem C3_parseFilters_keeps_one_equals:
  "parseFilters raw =
     (case QueryUnescape raw of
        Inl err \<Rightarrow> Inl err
      | Inr decoded \<Rightarrow>
          Inr (map (\<lambda>g. map (\<lambda>f. [takeWhile (\<lambda>x. x \<noteq> CHR ''='') f,
                                   tl (dropWhile (\<lambda>x. x \<noteq> CHR ''='') f)])
                        (filter (\<lambda>f. count_list f (CHR ''='') = 1) (Split g (CHR ''&''))))
                 (Split decoded (CHR ''|''))))
   \<and> parseFilters ''a=1&bad|c=3'' = Inr [[[''a'', ''1'']], [[''c'', ''3'']]]"
proof
  show "parseFilters raw =
     (case QueryUnescape raw of
        Inl err \<Rightarrow> Inl err
      | Inr decoded \<Rightarrow>
          Inr (map (\<lambda>g. map (\<lambda>f. [takeWhile (\<lambda>x. x \<noteq> CHR ''='') f,
                                   tl (dropWhile (\<lambda>x. x \<noteq> CHR ''='') f)])
                        (filter (\<lambda>f. count_list f (CHR ''='') = 1) (Split g (CHR ''&''))))
                 (Split decoded (CHR ''|''))))"
    by (simp add: parseFilters_def parseGroups_append kept_pairs split: sum.splits)
next
  have "QueryUnescape ''a=1&bad|c=3'' = Inr ''a=1&bad|c=3''"
    by (rule QueryUnescape_plain) simp_all
  then show "parseFilters ''a=1&bad|c=3'' = Inr [[[''a'', ''1'']], [[''c'', ''3'']]]"
    by (simp add: parseFilters_def Split_def)
qed

text \<open>
  Claim C3 as stated fails: a candidate with an empty value, or with an empty key, is
  kept.
\<close>

theorem C3_empty_part_kept:
  "parseFilters ''a='' = Inr [[[''a'', []]]] \<and> parseFilters ''=b'' = Inr [[[[], ''b'']]]"
proof -
  have "QueryUnescape ''a='' = Inr ''a=''" "QueryUnescape ''=b'' = Inr ''=b''"
    by (rule QueryUnescape_plain, simp, simp)+
  then show ?thesis
    by (simp add: parseFilters_def Split_def)
qed

text \<open>
  Claim C4, as the code has it. \<open>parseFilters\<close> applied to the empty string succeeds
  and returns one group, which holds no pair: \<open>strings.Split\<close> of an empty string has
  one piece.
\<close>

theorem C4_parseFilters_empty_one_group: "parseFilters [] = Inr [[]]"
proof -
  have "QueryUnescape [] = Inr []"
    by (rule QueryUnescape_plain) simp_all
  then show ?thesis
    by (simp add: parseFilters_def Split_def)
qed

text \<open>Claim C4 as stated fails: the result for the empty string is not a list of zero groups.\<close>

theorem C4_empty_not_zero_groups:
  "parseFilters [] \<noteq> Inr []
   \<and> (case parseFilters [] of Inl e \<Rightarrow> 0 | Inr gs \<Rightarrow> length gs) = Suc 0"
proof -
  have "QueryUnescape [] = Inr []"
    by (rule QueryUnescape_plain) simp_all
  then show ?thesis
    by (simp add: parseFilters_def Split_def)
qed

lemma unescape_write_clean:
  "CHR ''%'' \<notin> set s \<Longrightarrow>
   CHR ''%'' \<notin> set (unescape_write s) \<and> CHR ''+'' \<notin> set (unescape_write s)"
  by (induction s) auto

lemma QueryUnescape_no_percent:
  assumes "CHR ''%'' \<notin> set s"
  shows "\<exists>d. QueryUnescape s = Inr d \<and> CHR ''%'' \<notin> set d \<and> CHR ''+'' \<notin> set d"
proof (cases "CHR ''+'' \<in> set s")
  case True
  with assms have "QueryUnescape s = Inr (unescape_write s)"
    by (simp add: QueryUnescape_def unescape_check_no_percent)
  with unescape_write_clean [OF assms] show ?thesis by simp
next
  case False
  with assms show ?thesis by (simp add: QueryUnescape_plain)
qed

text \<open>
  Claim C9. For a filter string that holds no escape sequence (no \<open>%\<close>), unescaping it
  succeeds, and \<open>parseFilters\<close> gives the same groups for the string and for the string
  unescaped once more.
\<close>

theorem C9_parseFilters_decoded_idempotent:
  assumes "CHR ''%'' \<notin> set raw"
  shows "\<exists>decoded. QueryUnescape raw = Inr decoded \<and> parseFilters decoded = parseFilters raw"
proof -
  from QueryUnescape_no_percent [OF assms] obtain d
    where d: "QueryUnescape raw = Inr d" "CHR ''%'' \<notin> set d" "CHR ''+'' \<notin> set d"
    by blast
  from d(2,3) have "QueryUnescape d = Inr d" by (rule QueryUnescape_plain)
  with d(1) have "parseFilters d = parseFilters raw" by (simp add: parseFilters_def)
  with d(1) show ?thesis by blast
qed

text \<open>Claim C9 on a string that holds a \<open>+\<close>.\<close>

theorem C9_witness:
  "CHR ''%'' \<notin> set ''a=1+2&b=x|c=3''
   \<and> (\<exists>decoded. QueryUnescape ''a=1+2&b=x|c=3'' = Inr decoded
        \<and> parseFilters decoded = parseFilters ''a=1+2&b=x|c=3'')"
proof -
  have h: "CHR ''%'' \<notin> set ''a=1+2&b=x|c=3''" by simp
  from C9_parseFilters_decoded_idempotent [OF h] h show ?thesis by blast
qed

section \<open>The cap of the stream merger\<close>

lemma capReached_addRecord:
  "0 < sint (maxRecords m) \<Longrightarrow> int (length (entries m)) \<le> sint (maxRecords m) \<Longrightarrow>
   int (length (entries (addRecord m r))) \<le> sint (maxRecords m) \<and> maxRecords (addRecord m r) = maxRecords m"
  by (auto simp: addRecord_def capReached_def)

lemma Add_spec_bounded:
  "0 < sint (maxRecords m) \<Longrightarrow> int (length (entries m)) \<le> sint (maxRecords m) \<Longrightarrow>
   int (length (entries (Add_spec m batch))) \<le> sint (maxRecords m) \<and> maxRecords (Add_spec m batch) = maxRecords m"
proof (induction batch arbitrary: m)
  case Nil
  then show ?case by simp
next
  case (Cons r batch)
  from capReached_addRecord [OF Cons.prems, of r]
  have a: "int (length (entries (addRecord m r))) \<le> sint (maxRecords m)"
    and b: "maxRecords (addRecord m r) = maxRecords m" by blast+
  from Cons.IH [of "addRecord m r"] Cons.prems(1) a b show ?case by simp
qed

lemma foldl_Add_spec_bounded:
  "0 < sint (maxRecords m) \<Longrightarrow> int (length (entries m)) \<le> sint (maxRecords m) \<Longrightarrow>
   int (length (entries (foldl Add_spec m batches))) \<le> sint (maxRecords m)"
proof (induction batches arbitrary: m)
  case Nil
  then show ?case by simp
next
  case (Cons b batches)
  from Add_spec_bounded [OF Cons.prems, of b]
  have a: "int (length (entries (Add_spec m b))) \<le> sint (maxRecords m)"
    and e: "maxRecords (Add_spec m b) = maxRecords m" by blast+
  from Cons.IH [of "Add_spec m b"] Cons.prems(1) a e show ?case by simp
qed

text \<open>
  Claim C5. For every positive limit \<open>L\<close>, the merger built with \<open>L\<close> never holds
  more than \<open>L\<close> records, whatever the batches fed to it, however many and in whatever
  order: with limit 10 and three batches of 5 it holds the first 10 records.
\<close>

theorem C5_merger_cap:
  assumes "0 < sint L"
  shows "int (length (Get_spec (foldl Add_spec (NewStreamMerger_spec L) batches))) \<le> sint L"
  using foldl_Add_spec_bounded [of "NewStreamMerger_spec L" batches] assms
  by (simp add: NewStreamMerger_spec_def Get_spec_def)

text \<open>Claim C5 on the limit 10 and three batches of five records.\<close>

theorem C5_witness:
  "0 < sint (10 :: int64)
   \<and> int (length (Get_spec (foldl Add_spec (NewStreamMerger_spec 10)
         [[1, 2, 3, 4, 5 :: nat], [6, 7, 8, 9, 10], [11, 12, 13, 14, 15]]))) \<le> sint (10 :: int64)
   \<and> Get_spec (foldl Add_spec (NewStreamMerger_spec 10)
         [[1, 2, 3, 4, 5 :: nat], [6, 7, 8, 9, 10], [11, 12, 13, 14, 15]])
       = [1, 2, 3, 4, 5, 6, 7, 8, 9, 10]"
proof -
  have h: "0 < sint (10 :: int64)" by simp
  have v: "Get_spec (foldl Add_spec (NewStreamMerger_spec 10)
         [[1, 2, 3, 4, 5 :: nat], [6, 7, 8, 9, 10], [11, 12, 13, 14, 15]])
       = [1, 2, 3, 4, 5, 6, 7, 8, 9, 10]"
    by (simp add: NewStreamMerger_spec_def Get_spec_def addRecord_def capReached_def)
  from C5_merger_cap [OF h] h v show ?thesis by blast
qed

section \<open>Properties of getFlows\<close>

lemma buildQueries_accepted:
  "\<forall>g\<in>set gs. fst (Filters c (NewFlowQueryBuilder c cfg start end' limit reporter) g) = None \<Longrightarrow>
   buildQueries c Quote cfg start end' limit reporter gs acc =
     Inr (acc @ map (\<lambda>g. Build c (snd (Filters c (NewFlowQueryBuilder c cfg start end' limit reporter) g))) gs)"
  by (induction gs arbitrary: acc) (auto simp: Let_def split: prod.splits option.splits)

lemma buildQueries_rejected:
  "\<forall>h\<in>set pre. fst (Filters c (NewFlowQueryBuilder c cfg start end' limit reporter) h) = None \<Longrightarrow>
   fst (Filters c (NewFlowQueryBuilder c cfg start end' limit reporter) g) = Some e \<Longrightarrow>
   buildQueries c Quote cfg start end' limit reporter (pre @ g # post) acc =
     Inl (ErrorsNew (''Can't build query: '' @ Error Quote e))"
  by (induction pre arbitrary: acc) (auto simp: Let_def split: prod.splits option.splits)

lemma getFlows_parsed:
  "getStartTime Quote now params = Inr start \<Longrightarrow>
   getLimit Quote params = Inr (limit, reqLimit) \<Longrightarrow>
   parseFilters (Get params filtersKey) = Inr gs \<Longrightarrow>
   getFlows c Quote now cfg client params =
     fetchFlows c Quote cfg client start (Get params endTimeKey) limit reqLimit
       (Get params reporterKey) gs"
  by (simp add: getFlows_def)

lemma fetchFlows_many:
  "1 < length gs \<Longrightarrow>
   \<forall>g\<in>set gs. fst (Filters c (NewFlowQueryBuilder c cfg start end' limit reporter) g) = None \<Longrightarrow>
   fetchFlows c Quote cfg client start end' limit reqLimit reporter gs =
     (let queries = map (\<lambda>g. Build c (snd (Filters c (NewFlowQueryBuilder c cfg start end' limit reporter) g))) gs
      in case fetchParallel c client queries (NewStreamMerger c reqLimit) of
           ((code, Some err), merger') \<Rightarrow>
             ([FetchParallel queries], None, code,
              Some (ErrorsNew (''Error while fetching flows from Loki: '' @ Error Quote err)))
         | ((code, None), merger') \<Rightarrow>
             ([FetchParallel queries], Some (merger_Get c merger'), StatusOK, None))"
  by (simp add: fetchFlows_def buildQueries_accepted Let_def)

lemma fetchFlows_few:
  "length gs \<le> 1 \<Longrightarrow>
   \<forall>g\<in>set gs. fst (Filters c (NewFlowQueryBuilder c cfg start end' limit reporter) g) = None \<Longrightarrow>
   fetchFlows c Quote cfg client start end' limit reqLimit reporter gs =
     (let query = Build c (case gs of [] \<Rightarrow> NewFlowQueryBuilder c cfg start end' limit reporter
                           | g # _ \<Rightarrow> snd (Filters c (NewFlowQueryBuilder c cfg start end' limit reporter) g))
      in case fetchSingle c client query (NewStreamMerger c reqLimit) of
           ((code, Some err), merger') \<Rightarrow>
             ([FetchSingle query], None, code,
              Some (ErrorsNew (''Error while fetching flows from Loki: '' @ Error Quote err)))
         | ((code, None), merger') \<Rightarrow>
             ([FetchSingle query], Some (merger_Get c merger'), StatusOK, None))"
  by (cases gs) (auto simp: fetchFlows_def Let_def split: prod.splits option.splits)

lemmas spec_simps =
  collaborators_spec_def NewFlowQueryBuilder_spec_def Filters_spec_def Build_spec_def keyOf_def
  NewStreamMerger_spec_def Get_spec_def fetchSingle_spec_def addRecord_def capReached_def
  StatusOK_def StatusBadRequest_def

lemmas params_simps =
  getStartTime_def getLimit_def Get_def startTimeKey_def endTimeKey_def timeRangeKey_def
  limitKey_def reporterKey_def filtersKey_def

text \<open>
  Claim C1, as the code has it. For every list of filter groups all of which the builder
  accepts, \<open>getFlows\<close> follows the fan-out rule. With more than one group it builds one
  query per group, in order, hands them all to \<open>fetchParallel\<close> together with the new
  merger, and its results are those of that call: on an error of the helper, no response,
  the helper's code and the prefixed message; otherwise the response read from the merger
  that the helper returns, with status 200. With at most one group it hands one query to
  \<open>fetchSingle\<close>, built with the filters of the lone group when there is one and with no
  filters otherwise, and its results are those of that call in the same way. The groups
  are those \<open>parseFilters\<close> returns for the \<open>filters\<close> parameter.
\<close>

theorem C1_fanout_decision:
  assumes "\<forall>g\<in>set gs. fst (Filters c (NewFlowQueryBuilder c cfg start end' limit reporter) g) = None"
  shows "fetchFlows c Quote cfg client start end' limit reqLimit reporter gs =
           (if 1 < length gs then
              (let queries =
                 map (\<lambda>g. Build c (snd (Filters c (NewFlowQueryBuilder c cfg start end' limit reporter) g))) gs
               in case fetchParallel c client queries (NewStreamMerger c reqLimit) of
                    ((code, Some err), merger') \<Rightarrow>
                      ([FetchParallel queries], None, code,
                       Some (ErrorsNew (''Error while fetching flows from Loki: '' @ Error Quote err)))
                  | ((code, None), merger') \<Rightarrow>
                      ([FetchParallel queries], Some (merger_Get c merger'), 200, None))
            else
              (let query =
                 Build c (case gs of
                            [] \<Rightarrow> NewFlowQueryBuilder c cfg start end' limit reporter
                          | g # _ \<Rightarrow> snd (Filters c (NewFlowQueryBuilder c cfg start end' limit reporter) g))
               in case fetchSingle c client query (NewStreamMerger c reqLimit) of
                    ((code, Some err), merger') \<Rightarrow>
                      ([FetchSingle query], None, code,
                       Some (ErrorsNew (''Error while fetching flows from Loki: '' @ Error Quote err)))
                  | ((code, None), merger') \<Rightarrow>
                      ([FetchSingle query], Some (merger_Get c merger'), 200, None)))
         \<and> (getStartTime Quote now params = Inr start \<and>
            getLimit Quote params = Inr (limit, reqLimit) \<and>
            parseFilters (Get params filtersKey) = Inr gs \<and>
            Get params endTimeKey = end' \<and> Get params reporterKey = reporter \<longrightarrow>
            getFlows c Quote now cfg client params =
              fetchFlows c Quote cfg client start end' limit reqLimit reporter gs)"
proof (rule conjI)
  show "fetchFlows c Quote cfg client start end' limit reqLimit reporter gs =
           (if 1 < length gs then
              (let queries =
                 map (\<lambda>g. Build c (snd (Filters c (NewFlowQueryBuilder c cfg start end' limit reporter) g))) gs
               in case fetchParallel c client queries (NewStreamMerger c reqLimit) of
                    ((code, Some err), merger') \<Rightarrow>
                      ([FetchParallel queries], None, code,
                       Some (ErrorsNew (''Error while fetching flows from Loki: '' @ Error Quote err)))
                  | ((code, None), merger') \<Rightarrow>
                      ([FetchParallel queries], Some (merger_Get c merger'), 200, None))
            else
              (let query =
                 Build c (case gs of
                            [] \<Rightarrow> NewFlowQueryBuilder c cfg start end' limit reporter
                          | g # _ \<Rightarrow> snd (Filters c (NewFlowQueryBuilder c cfg start end' limit reporter) g))
               in case fetchSingle c client query (NewStreamMerger c reqLimit) of
                    ((code, Some err), merger') \<Rightarrow>
                      ([FetchSingle query], None, code,
                       Some (ErrorsNew (''Error while fetching flows from Loki: '' @ Error Quote err)))
                  | ((code, None), merger') \<Rightarrow>
                      ([FetchSingle query], Some (merger_Get c merger'), 200, None)))"
  proof (cases "1 < length gs")
    case True
    from fetchFlows_many [OF True assms, of Quote client reqLimit] True show ?thesis
      by (simp add: StatusOK_def)
  next
    case False
    then have "length gs \<le> 1" by simp
    from fetchFlows_few [OF this assms, of Quote client reqLimit] False show ?thesis
      by (simp add: StatusOK_def)
  qed
next
  show "getStartTime Quote now params = Inr start \<and>
            getLimit Quote params = Inr (limit, reqLimit) \<and>
            parseFilters (Get params filtersKey) = Inr gs \<and>
            Get params endTimeKey = end' \<and> Get params reporterKey = reporter \<longrightarrow>
            getFlows c Quote now cfg client params =
              fetchFlows c Quote cfg client start end' limit reqLimit reporter gs"
    using getFlows_parsed [of Quote now params start limit reqLimit gs c cfg client] by blast
qed

text \<open>
  Claim C1 on three requests, the backend answering each query with one record that
  names it: two groups, one group, and the list of no groups. The response holds what
  the backend returned for the queries dispatched.
\<close>

theorem C1_witness:
  "getFlows (collaborators_spec [''a'', ''c'']) (\<lambda>s. s) 0 () (\<lambda>q. Inr [q])
          [filtersKey \<mapsto> [''a=1|c=3'']]
     = ([FetchParallel ['';;;;a,1,;'', '';;;;c,3,;'']],
        Some ['';;;;a,1,;'', '';;;;c,3,;''], 200, None)
   \<and> getFlows (collaborators_spec [''a'', ''c'']) (\<lambda>s. s) 0 () (\<lambda>q. Inr [q])
          [filtersKey \<mapsto> [''a=1'']]
     = ([FetchSingle '';;;;a,1,;''], Some ['';;;;a,1,;''], 200, None)
   \<and> fetchFlows (collaborators_spec [''a'', ''c'']) (\<lambda>s. s) () (\<lambda>q. Inr [q])
          [] [] [] 0 [] []
     = ([FetchSingle '';;;;''], Some ['';;;;''], 200, None)"
proof (intro conjI)
  let ?c = "collaborators_spec [''a'', ''c''] ::
    (unit, FlowQueryBuilder, string backend, string StreamMerger, string list) collaborators"
  let ?client = "(\<lambda>q. Inr [q]) :: string backend"
  let ?p2 = "[filtersKey \<mapsto> [''a=1|c=3'']] :: Values"
  let ?p1 = "[filtersKey \<mapsto> [''a=1'']] :: Values"
  have f2: "parseFilters (Get ?p2 filtersKey) = Inr [[[''a'', ''1'']], [[''c'', ''3'']]]"
    by (simp add: Get_def parseFilters_def QueryUnescape_def Split_def)
  have f1: "parseFilters (Get ?p1 filtersKey) = Inr [[[''a'', ''1'']]]"
    by (simp add: Get_def parseFilters_def QueryUnescape_def Split_def)
  have s2: "getStartTime (\<lambda>s. s) 0 ?p2 = Inr []" "getLimit (\<lambda>s. s) ?p2 = Inr ([], 0)"
    "Get ?p2 endTimeKey = []" "Get ?p2 reporterKey = []"
    by (simp_all add: params_simps)
  have s1: "getStartTime (\<lambda>s. s) 0 ?p1 = Inr []" "getLimit (\<lambda>s. s) ?p1 = Inr ([], 0)"
    "Get ?p1 endTimeKey = []" "Get ?p1 reporterKey = []"
    by (simp_all add: params_simps)
  have a2: "\<forall>g\<in>set [[[''a'', ''1'']], [[''c'', ''3'']]].
      fst (Filters ?c (NewFlowQueryBuilder ?c () [] [] [] []) g) = None"
    by (simp add: spec_simps)
  have a1: "\<forall>g\<in>set [[[''a'', ''1'']]].
      fst (Filters ?c (NewFlowQueryBuilder ?c () [] [] [] []) g) = None"
    by (simp add: spec_simps)
  have a0: "\<forall>g\<in>set [].
      fst (Filters ?c (NewFlowQueryBuilder ?c () [] [] [] []) g) = None"
    by simp
  from C1_fanout_decision [OF a2, of "\<lambda>s. s" ?client 0 0 ?p2] f2 s2
  show "getFlows ?c (\<lambda>s. s) 0 () ?client ?p2
     = ([FetchParallel ['';;;;a,1,;'', '';;;;c,3,;'']],
        Some ['';;;;a,1,;'', '';;;;c,3,;''], 200, None)"
    by (simp add: spec_simps Let_def)
  from C1_fanout_decision [OF a1, of "\<lambda>s. s" ?client 0 0 ?p1] f1 s1
  show "getFlows ?c (\<lambda>s. s) 0 () ?client ?p1
     = ([FetchSingle '';;;;a,1,;''], Some ['';;;;a,1,;''], 200, None)"
    by (simp add: spec_simps Let_def)
  from C1_fanout_decision [OF a0, of "\<lambda>s. s" ?client 0 0 ?p1]
  show "fetchFlows ?c (\<lambda>s. s) () ?client [] [] [] 0 [] []
     = ([FetchSingle '';;;;''], Some ['';;;;''], 200, None)"
    by (simp add: spec_simps Let_def)
qed

text \<open>
  Claim C1 as stated fails: the filters \<open>a=1|zz=3\<close> parse to two groups, yet with a
  builder that rejects the key \<open>zz\<close> no query is handed to \<open>fetchParallel\<close>. The backend
  here fails every query with status 503; the request ends with the builder's error and
  status 400, so the backend was not asked.
\<close>

theorem C1_rejected_group_not_dispatched:
  "parseFilters (Get [filtersKey \<mapsto> [''a=1|zz=3'']] filtersKey)
     = Inr [[[''a'', ''1'']], [[''zz'', ''3'']]]
   \<and> getFlows (collaborators_spec [''a'']) (\<lambda>s. s) 0 ()
         ((\<lambda>q. Inl (503, ErrorsNew ''backend down'')) :: string backend)
         [filtersKey \<mapsto> [''a=1|zz=3'']]
     = ([], None, 400, Some (ErrorsNew ''Can't build query: unknown filter key: zz''))"
proof (intro conjI)
  let ?p = "[filtersKey \<mapsto> [''a=1|zz=3'']] :: Values"
  show f: "parseFilters (Get ?p filtersKey) = Inr [[[''a'', ''1'']], [[''zz'', ''3'']]]"
    by (simp add: Get_def parseFilters_def QueryUnescape_def Split_def)
  have s: "getStartTime (\<lambda>s. s) 0 ?p = Inr []"
    by (simp add: params_simps)
  have l: "getLimit (\<lambda>s. s) ?p = Inr ([], 0)"
    by (simp add: params_simps)
  have e: "Get ?p endTimeKey = []" "Get ?p reporterKey = []"
    by (simp_all add: params_simps)
  show "getFlows (collaborators_spec [''a'']) (\<lambda>s. s) 0 ()
         ((\<lambda>q. Inl (503, ErrorsNew ''backend down'')) :: string backend) ?p
     = ([], None, 400, Some (ErrorsNew ''Can't build query: unknown filter key: zz''))"
    by (simp add: getFlows_parsed [OF s l f] e fetchFlows_def spec_simps Let_def)
qed

text \<open>
  Claim C2. When the fetch helper that \<open>getFlows\<close> calls (\<open>fetchParallel\<close> for more
  than one group, \<open>fetchSingle\<close> otherwise) returns an error, \<open>getFlows\<close> returns no
  response, the status code the helper returned, and an error whose message is
  \<open>Error while fetching flows from Loki: \<close> followed by the message of the helper's
  error.
\<close>

theorem C2_fetch_failure:
  assumes "getStartTime Quote now params = Inr start"
    and "getLimit Quote params = Inr (limit, reqLimit)"
    and "parseFilters (Get params filtersKey) = Inr gs"
    and "\<forall>g\<in>set gs. fst (Filters c (NewFlowQueryBuilder c cfg start (Get params endTimeKey) limit
                                     (Get params reporterKey)) g) = None"
    and "(if 1 < length gs then
            fetchParallel c client
              (map (\<lambda>g. Build c (snd (Filters c (NewFlowQueryBuilder c cfg start (Get params endTimeKey)
                                                      limit (Get params reporterKey)) g))) gs)
              (NewStreamMerger c reqLimit)
          else
            fetchSingle c client
              (Build c (case gs of
                          [] \<Rightarrow> NewFlowQueryBuilder c cfg start (Get params endTimeKey) limit
                                 (Get params reporterKey)
                        | g # _ \<Rightarrow> snd (Filters c (NewFlowQueryBuilder c cfg start (Get params endTimeKey)
                                                      limit (Get params reporterKey)) g)))
              (NewStreamMerger c reqLimit))
         = ((code, Some e), m')"
  shows "snd (getFlows c Quote now cfg client params) =
           (None, code, Some (ErrorsNew (''Error while fetching flows from Loki: '' @ Error Quote e)))"
proof (cases "1 < length gs")
  case True
  with assms(5) fetchFlows_many [OF True assms(4), of Quote client reqLimit]
    getFlows_parsed [OF assms(1-3), of c cfg client]
  show ?thesis by (simp add: Let_def)
next
  case False
  then have "length gs \<le> 1" by simp
  from assms(5) False fetchFlows_few [OF this assms(4), of Quote client reqLimit]
    getFlows_parsed [OF assms(1-3), of c cfg client]
  show ?thesis by (simp add: Let_def)
qed

text \<open>
  Claim C2 on a backend that answers the query of the group \<open>c=3\<close> with status 503: the
  first of two parallel fetches succeeds and the second fails, and a single fetch fails.
\<close>

theorem C2_witness:
  "snd (getFlows (collaborators_spec [''a'', ''c'']) (\<lambda>s. s) 0 ()
          (\<lambda>q. if q = '';;;;c,3,;'' then Inl (503, ErrorsNew ''backend down'') else Inr [q])
          [filtersKey \<mapsto> [''a=1|c=3'']])
     = (None, 503, Some (ErrorsNew ''Error while fetching flows from Loki: backend down''))
   \<and> snd (getFlows (collaborators_spec [''a'', ''c'']) (\<lambda>s. s) 0 ()
          (\<lambda>q. if q = '';;;;c,3,;'' then Inl (503, ErrorsNew ''backend down'') else Inr [q])
          [filtersKey \<mapsto> [''c=3'']])
     = (None, 503, Some (ErrorsNew ''Error while fetching flows from Loki: backend down''))"
proof (intro conjI)
  let ?c = "collaborators_spec [''a'', ''c''] ::
    (unit, FlowQueryBuilder, string backend, string StreamMerger, string list) collaborators"
  let ?client = "(\<lambda>q. if q = '';;;;c,3,;'' then Inl (503, ErrorsNew ''backend down'') else Inr [q])
    :: string backend"
  let ?p2 = "[filtersKey \<mapsto> [''a=1|c=3'']] :: Values"
  let ?p1 = "[filtersKey \<mapsto> [''c=3'']] :: Values"
  have f2: "parseFilters (Get ?p2 filtersKey) = Inr [[[''a'', ''1'']], [[''c'', ''3'']]]"
    by (simp add: Get_def parseFilters_def QueryUnescape_def Split_def)
  have f1: "parseFilters (Get ?p1 filtersKey) = Inr [[[''c'', ''3'']]]"
    by (simp add: Get_def parseFilters_def QueryUnescape_def Split_def)
  have s2: "getStartTime (\<lambda>s. s) 0 ?p2 = Inr []" "getLimit (\<lambda>s. s) ?p2 = Inr ([], 0)"
    and e2: "Get ?p2 endTimeKey = []" "Get ?p2 reporterKey = []"
    by (simp_all add: params_simps)
  have s1: "getStartTime (\<lambda>s. s) 0 ?p1 = Inr []" "getLimit (\<lambda>s. s) ?p1 = Inr ([], 0)"
    and e1: "Get ?p1 endTimeKey = []" "Get ?p1 reporterKey = []"
    by (simp_all add: params_simps)
  have a2: "\<forall>g\<in>set [[[''a'', ''1'']], [[''c'', ''3'']]].
      fst (Filters ?c (NewFlowQueryBuilder ?c () [] (Get ?p2 endTimeKey) [] (Get ?p2 reporterKey)) g) = None"
    by (simp add: e2 spec_simps)
  have a1: "\<forall>g\<in>set [[[''c'', ''3'']]].
      fst (Filters ?c (NewFlowQueryBuilder ?c () [] (Get ?p1 endTimeKey) [] (Get ?p1 reporterKey)) g) = None"
    by (simp add: e1 spec_simps)
  have r2: "(if 1 < length [[[''a'', ''1'']], [[''c'', ''3'']]] then
            fetchParallel ?c ?client
              (map (\<lambda>g. Build ?c (snd (Filters ?c (NewFlowQueryBuilder ?c () [] (Get ?p2 endTimeKey)
                                                      [] (Get ?p2 reporterKey)) g)))
                 [[[''a'', ''1'']], [[''c'', ''3'']]])
              (NewStreamMerger ?c 0)
          else
            fetchSingle ?c ?client
              (Build ?c (case [[[''a'', ''1'']], [[''c'', ''3'']]] of
                          [] \<Rightarrow> NewFlowQueryBuilder ?c () [] (Get ?p2 endTimeKey) []
                                 (Get ?p2 reporterKey)
                        | g # _ \<Rightarrow> snd (Filters ?c (NewFlowQueryBuilder ?c () [] (Get ?p2 endTimeKey)
                                                      [] (Get ?p2 reporterKey)) g)))
              (NewStreamMerger ?c 0))
         = ((503, Some (ErrorsNew ''backend down'')), \<lparr>maxRecords = 0, entries = ['';;;;a,1,;'']\<rparr>)"
    by (simp add: e2 spec_simps)
  have r1: "(if 1 < length [[[''c'', ''3'']]] then
            fetchParallel ?c ?client
              (map (\<lambda>g. Build ?c (snd (Filters ?c (NewFlowQueryBuilder ?c () [] (Get ?p1 endTimeKey)
                                                      [] (Get ?p1 reporterKey)) g)))
                 [[[''c'', ''3'']]])
              (NewStreamMerger ?c 0)
          else
            fetchSingle ?c ?client
              (Build ?c (case [[[''c'', ''3'']]] of
                          [] \<Rightarrow> NewFlowQueryBuilder ?c () [] (Get ?p1 endTimeKey) []
                                 (Get ?p1 reporterKey)
                        | g # _ \<Rightarrow> snd (Filters ?c (NewFlowQueryBuilder ?c () [] (Get ?p1 endTimeKey)
                                                      [] (Get ?p1 reporterKey)) g)))
              (NewStreamMerger ?c 0))
         = ((503, Some (ErrorsNew ''backend down'')), \<lparr>maxRecords = 0, entries = []\<rparr>)"
    by (simp add: e1 spec_simps)
  from C2_fetch_failure [OF s2 f2 a2 r2]
  show "snd (getFlows ?c (\<lambda>s. s) 0 () ?client ?p2)
     = (None, 503, Some (ErrorsNew ''Error while fetching flows from Loki: backend down''))"
    by simp
  from C2_fetch_failure [OF s1 f1 a1 r1]
  show "snd (getFlows ?c (\<lambda>s. s) 0 () ?client ?p1)
     = (None, 503, Some (ErrorsNew ''Error while fetching flows from Loki: backend down''))"
    by simp
qed

text \<open>
  Claim C10. With more than one group, the first group that the builder rejects ends the
  request with status 400 and the builder's message after \<open>Can't build query: \<close>; with
  one group, a rejection ends the request with status 400 and the builder's error as it
  is. Neither path returns a response, and neither calls a fetch helper.
\<close>

theorem C10_build_failure:
  assumes "getStartTime Quote now params = Inr start"
    and "getLimit Quote params = Inr (limit, reqLimit)"
    and "parseFilters (Get params filtersKey) = Inr gs"
  shows "(1 < length gs \<and> gs = pre @ g # post \<and>
          (\<forall>h\<in>set pre. fst (Filters c (NewFlowQueryBuilder c cfg start (Get params endTimeKey) limit
                                          (Get params reporterKey)) h) = None) \<and>
          fst (Filters c (NewFlowQueryBuilder c cfg start (Get params endTimeKey) limit
                            (Get params reporterKey)) g) = Some e \<longrightarrow>
          getFlows c Quote now cfg client params =
            ([], None, 400, Some (ErrorsNew (''Can't build query: '' @ Error Quote e))))
       \<and> (gs = [g] \<and>
          fst (Filters c (NewFlowQueryBuilder c cfg start (Get params endTimeKey) limit
                            (Get params reporterKey)) g) = Some e \<longrightarrow>
          getFlows c Quote now cfg client params = ([], None, 400, Some e))"
proof (intro conjI impI)
  assume h: "1 < length gs \<and> gs = pre @ g # post \<and>
          (\<forall>h\<in>set pre. fst (Filters c (NewFlowQueryBuilder c cfg start (Get params endTimeKey) limit
                                          (Get params reporterKey)) h) = None) \<and>
          fst (Filters c (NewFlowQueryBuilder c cfg start (Get params endTimeKey) limit
                            (Get params reporterKey)) g) = Some e"
  then have l: "1 < length gs" by blast
  from h have "buildQueries c Quote cfg start (Get params endTimeKey) limit (Get params reporterKey)
               gs [] = Inl (ErrorsNew (''Can't build query: '' @ Error Quote e))"
    using buildQueries_rejected [of pre c cfg start "Get params endTimeKey" limit
        "Get params reporterKey" g e Quote post "[]"]
    by blast
  with l have "fetchFlows c Quote cfg client start (Get params endTimeKey) limit reqLimit
                 (Get params reporterKey) gs =
            ([], None, 400, Some (ErrorsNew (''Can't build query: '' @ Error Quote e)))"
    by (simp add: fetchFlows_def StatusBadRequest_def)
  with getFlows_parsed [OF assms, of c cfg client]
  show "getFlows c Quote now cfg client params =
            ([], None, 400, Some (ErrorsNew (''Can't build query: '' @ Error Quote e)))"
    by simp
next
  assume h: "gs = [g] \<and>
          fst (Filters c (NewFlowQueryBuilder c cfg start (Get params endTimeKey) limit
                            (Get params reporterKey)) g) = Some e"
  with getFlows_parsed [OF assms, of c cfg client]
  show "getFlows c Quote now cfg client params = ([], None, 400, Some e)"
    by (auto simp: fetchFlows_def StatusBadRequest_def Let_def split: prod.splits option.splits)
qed

text \<open>Claim C10 on a builder that knows the key \<open>a\<close> only.\<close>

theorem C10_witness:
  "getFlows (collaborators_spec [''a'']) (\<lambda>s. s) 0 () (\<lambda>q. Inr [q])
          [filtersKey \<mapsto> [''a=1|zz=3'']]
     = ([], None, 400, Some (ErrorsNew ''Can't build query: unknown filter key: zz''))
   \<and> getFlows (collaborators_spec [''a'']) (\<lambda>s. s) 0 () (\<lambda>q. Inr [q])
          [filtersKey \<mapsto> [''zz=3'']]
     = ([], None, 400, Some (ErrorsNew ''unknown filter key: zz''))"
proof (intro conjI)
  let ?c = "collaborators_spec [''a''] ::
    (unit, FlowQueryBuilder, string backend, string StreamMerger, string list) collaborators"
  let ?client = "(\<lambda>q. Inr [q]) :: string backend"
  let ?p2 = "[filtersKey \<mapsto> [''a=1|zz=3'']] :: Values"
  let ?p1 = "[filtersKey \<mapsto> [''zz=3'']] :: Values"
  have f2: "parseFilters (Get ?p2 filtersKey) = Inr [[[''a'', ''1'']], [[''zz'', ''3'']]]"
    by (simp add: Get_def parseFilters_def QueryUnescape_def Split_def)
  have f1: "parseFilters (Get ?p1 filtersKey) = Inr [[[''zz'', ''3'']]]"
    by (simp add: Get_def parseFilters_def QueryUnescape_def Split_def)
  have s2: "getStartTime (\<lambda>s. s) 0 ?p2 = Inr []" "getLimit (\<lambda>s. s) ?p2 = Inr ([], 0)"
    and e2: "Get ?p2 endTimeKey = []" "Get ?p2 reporterKey = []"
    by (simp_all add: params_simps)
  have s1: "getStartTime (\<lambda>s. s) 0 ?p1 = Inr []" "getLimit (\<lambda>s. s) ?p1 = Inr ([], 0)"
    and e1: "Get ?p1 endTimeKey = []" "Get ?p1 reporterKey = []"
    by (simp_all add: params_simps)
  have h2: "1 < length [[[''a'', ''1'']], [[''zz'', ''3'']]] \<and>
      [[[''a'', ''1'']], [[''zz'', ''3'']]] = [[[''a'', ''1'']]] @ [[''zz'', ''3'']] # [] \<and>
      (\<forall>h\<in>set [[[''a'', ''1'']]].
          fst (Filters ?c (NewFlowQueryBuilder ?c () [] (Get ?p2 endTimeKey) []
                 (Get ?p2 reporterKey)) h) = None) \<and>
      fst (Filters ?c (NewFlowQueryBuilder ?c () [] (Get ?p2 endTimeKey) []
                 (Get ?p2 reporterKey)) [[''zz'', ''3'']]) = Some (ErrorsNew ''unknown filter key: zz'')"
    by (simp add: e2 spec_simps)
  have h1: "[[[''zz'', ''3'']]] = [[[''zz'', ''3'']]] \<and>
      fst (Filters ?c (NewFlowQueryBuilder ?c () [] (Get ?p1 endTimeKey) []
                 (Get ?p1 reporterKey)) [[''zz'', ''3'']]) = Some (ErrorsNew ''unknown filter key: zz'')"
    by (simp add: e1 spec_simps)
  from C10_build_failure [OF s2 f2, THEN conjunct1, rule_format, OF h2, of ?client]
  show "getFlows ?c (\<lambda>s. s) 0 () ?client ?p2
     = ([], None, 400, Some (ErrorsNew ''Can't build query: unknown filter key: zz''))"
    by simp
  from C10_build_failure [OF s1 f1, THEN conjunct2, rule_format, OF h1, of ?client]
  show "getFlows ?c (\<lambda>s. s) 0 () ?client ?p1
     = ([], None, 400, Some (ErrorsNew ''unknown filter key: zz''))"
    by simp
qed

section \<open>Properties of getStartTime and getLimit\<close>

lemma ParseInt_Nil: "ParseInt [] = Inl (NumError ''ParseInt'' [] ErrSyntax)"
  by (simp add: ParseInt_def)

lemma sint_diff_exact:
  "- (2 ^ 63) \<le> sint (a :: int64) - sint b \<Longrightarrow> sint a - sint b < 2 ^ 63 \<Longrightarrow>
   sint (a - b) = sint a - sint b"
  by (simp add: sint_word_ariths signed_take_bit_int_eq_self)

text \<open>
  Claim C7, as the code has it. With no \<open>startTime\<close> value and a \<open>timeRange\<close> value
  that parses to the 64-bit integer \<open>r\<close>, \<open>getStartTime\<close> returns the decimal string of
  \<open>now - r\<close> computed in 64-bit two's-complement arithmetic, which is the exact
  difference whenever that fits in 64 bits; a non-empty \<open>startTime\<close> value is returned
  as given; with neither value the result is the empty string. None of these cases is an
  error. A parameter is present when \<open>Get\<close> returns a non-empty string for it.
\<close>

theorem C7_getStartTime:
  "(Get params startTimeKey = [] \<and> ParseInt (Get params timeRangeKey) = Inr r \<longrightarrow>
      getStartTime Quote now params = Inr (FormatInt (now - r)))
   \<and> (- (2 ^ 63) \<le> sint now - sint r \<and> sint now - sint r < 2 ^ 63 \<longrightarrow>
      sint (now - r) = sint now - sint r)
   \<and> (Get params startTimeKey \<noteq> [] \<longrightarrow>
      getStartTime Quote now params = Inr (Get params startTimeKey))
   \<and> (Get params startTimeKey = [] \<and> Get params timeRangeKey = [] \<longrightarrow>
      getStartTime Quote now params = Inr [])"
proof (intro conjI impI)
  assume h: "Get params startTimeKey = [] \<and> ParseInt (Get params timeRangeKey) = Inr r"
  then have "Get params timeRangeKey \<noteq> []"
    using ParseInt_Nil by auto
  with h show "getStartTime Quote now params = Inr (FormatInt (now - r))"
    by (simp add: getStartTime_def)
next
  assume "- (2 ^ 63) \<le> sint now - sint r \<and> sint now - sint r < 2 ^ 63"
  then show "sint (now - r) = sint now - sint r"
    by (simp add: sint_diff_exact)
next
  assume "Get params startTimeKey \<noteq> []"
  then show "getStartTime Quote now params = Inr (Get params startTimeKey)"
    by (simp add: getStartTime_def)
next
  assume "Get params startTimeKey = [] \<and> Get params timeRangeKey = []"
  then show "getStartTime Quote now params = Inr []"
    by (simp add: getStartTime_def)
qed

lemma ParseInt_60: "ParseInt ''60'' = Inr 60"
  by (simp add: ParseInt_def ParseUint_def maxUint64_def)

lemma ParseInt_min: "ParseInt ''-9223372036854775808'' = Inr (- 9223372036854775808)"
  by (simp add: ParseInt_def ParseUint_def maxUint64_def)

text \<open>Claim C7 at the clock value 1700000000.\<close>

theorem C7_witness:
  "getStartTime (\<lambda>s. s) 1700000000 [timeRangeKey \<mapsto> [''60'']] = Inr ''1699999940''
   \<and> sint (1700000000 - 60 :: int64) = 1699999940
   \<and> getStartTime (\<lambda>s. s) 1700000000 [startTimeKey \<mapsto> [''1650000000''], timeRangeKey \<mapsto> [''60'']]
       = Inr ''1650000000''
   \<and> getStartTime (\<lambda>s. s) 1700000000 Map.empty = Inr []"
proof (intro conjI)
  let ?p1 = "[timeRangeKey \<mapsto> [''60'']] :: Values"
  let ?p2 = "[startTimeKey \<mapsto> [''1650000000''], timeRangeKey \<mapsto> [''60'']] :: Values"
  let ?p3 = "Map.empty :: Values"
  have h1: "Get ?p1 startTimeKey = [] \<and> ParseInt (Get ?p1 timeRangeKey) = Inr 60"
    by (simp add: Get_def startTimeKey_def timeRangeKey_def ParseInt_60)
  have h2: "Get ?p2 startTimeKey \<noteq> []"
    by (simp add: Get_def startTimeKey_def timeRangeKey_def)
  have h3: "Get ?p3 startTimeKey = [] \<and> Get ?p3 timeRangeKey = []"
    by (simp add: Get_def)
  have h4: "- (2 ^ 63) \<le> sint (1700000000 :: int64) - sint (60 :: int64) \<and>
            sint (1700000000 :: int64) - sint (60 :: int64) < 2 ^ 63"
    by simp
  from C7_getStartTime [of ?p1 60 "\<lambda>s. s" 1700000000, THEN conjunct1, rule_format, OF h1]
  show "getStartTime (\<lambda>s. s) 1700000000 ?p1 = Inr ''1699999940''"
    by (simp add: FormatInt_def decimal.simps char_of_eq_iff)
  from C7_getStartTime [of ?p1 60 "\<lambda>s. s" 1700000000, THEN conjunct2, THEN conjunct1, rule_format, OF h4]
  show "sint (1700000000 - 60 :: int64) = 1699999940"
    by simp
  from C7_getStartTime [of ?p2 60 "\<lambda>s. s" 1700000000, THEN conjunct2, THEN conjunct2, THEN conjunct1,
      rule_format, OF h2]
  show "getStartTime (\<lambda>s. s) 1700000000 ?p2 = Inr ''1650000000''"
    by (simp add: Get_def startTimeKey_def timeRangeKey_def)
  from C7_getStartTime [of ?p3 60 "\<lambda>s. s" 1700000000, THEN conjunct2, THEN conjunct2, THEN conjunct2,
      rule_format, OF h3]
  show "getStartTime (\<lambda>s. s) 1700000000 ?p3 = Inr []"
    by simp
qed

text \<open>
  Claim C7 as stated fails: with \<open>timeRange=-9223372036854775808\<close> at the clock value
  1700000000 the subtraction wraps around, and the string returned is not the decimal
  string of the current time minus the range, 9223372038554775808.
\<close>

theorem C7_wraps_around:
  "Get [timeRangeKey \<mapsto> [''-9223372036854775808'']] startTimeKey = []
   \<and> ParseInt (Get [timeRangeKey \<mapsto> [''-9223372036854775808'']] timeRangeKey)
       = Inr (- 9223372036854775808)
   \<and> getStartTime (\<lambda>s. s) 1700000000 [timeRangeKey \<mapsto> [''-9223372036854775808'']]
       = Inr ''-9223372035154775808''
   \<and> sint (1700000000 :: int64) - sint (- 9223372036854775808 :: int64) = 9223372038554775808"
proof (intro conjI)
  let ?p = "[timeRangeKey \<mapsto> [''-9223372036854775808'']] :: Values"
  show "Get ?p startTimeKey = []"
    by (simp add: Get_def startTimeKey_def timeRangeKey_def)
  show p: "ParseInt (Get ?p timeRangeKey) = Inr (- 9223372036854775808)"
    by (simp add: Get_def timeRangeKey_def ParseInt_min)
  have "Get ?p timeRangeKey = ''-9223372036854775808''"
    by (simp add: Get_def)
  then show "getStartTime (\<lambda>s. s) 1700000000 ?p = Inr ''-9223372035154775808''"
    by (simp add: getStartTime_def Get_def startTimeKey_def timeRangeKey_def ParseInt_min
        FormatInt_def decimal.simps char_of_eq_iff)
  show "sint (1700000000 :: int64) - sint (- 9223372036854775808 :: int64) = 9223372038554775808"
    by simp
qed

lemma ParseInt_abc: "ParseInt ''abc'' = Inl (NumError ''ParseInt'' ''abc'' ErrSyntax)"
  by (simp add: ParseInt_def ParseUint_def maxUint64_def)

lemma ParseInt_12x: "ParseInt ''12x'' = Inl (NumError ''ParseInt'' ''12x'' ErrSyntax)"
  by (simp add: ParseInt_def ParseUint_def maxUint64_def)

text \<open>
  Claim C8, as the code has it. When \<open>startTime\<close> is empty and \<open>timeRange\<close> is non-empty
  and is not a valid integer, \<open>getStartTime\<close> fails with the parse error and \<open>getFlows\<close>
  returns status 400 with it; when \<open>limit\<close> is non-empty and is not a valid integer,
  \<open>getLimit\<close> fails with the parse error and \<open>getFlows\<close> returns status 400 and no
  response, with that error when the start time was read without error; an absent limit gives
  the empty string and zero without error.
\<close>

theorem C8_parse_errors:
  "(Get params startTimeKey = [] \<and> Get params timeRangeKey \<noteq> [] \<and>
    ParseInt (Get params timeRangeKey) = Inl e \<longrightarrow>
      getStartTime Quote now params =
        Inl (ErrorsNew (''Could not parse time range: '' @ Error Quote e))
      \<and> getFlows c Quote now cfg client params =
        ([], None, 400, Some (ErrorsNew (''Could not parse time range: '' @ Error Quote e))))
   \<and> (Get params limitKey \<noteq> [] \<and> ParseInt (Get params limitKey) = Inl e \<longrightarrow>
      getLimit Quote params = Inl (ErrorsNew (''Could not parse limit: '' @ Error Quote e))
      \<and> fst (snd (getFlows c Quote now cfg client params)) = None
      \<and> fst (snd (snd (getFlows c Quote now cfg client params))) = 400)
   \<and> (Get params limitKey \<noteq> [] \<and> ParseInt (Get params limitKey) = Inl e \<and>
      getStartTime Quote now params = Inr start \<longrightarrow>
      getFlows c Quote now cfg client params =
        ([], None, 400, Some (ErrorsNew (''Could not parse limit: '' @ Error Quote e))))
   \<and> (Get params limitKey = [] \<longrightarrow> getLimit Quote params = Inr ([], 0))"
proof (intro conjI impI)
  assume h: "Get params startTimeKey = [] \<and> Get params timeRangeKey \<noteq> [] \<and>
    ParseInt (Get params timeRangeKey) = Inl e"
  then show s: "getStartTime Quote now params =
        Inl (ErrorsNew (''Could not parse time range: '' @ Error Quote e))"
    by (simp add: getStartTime_def)
  then show "getFlows c Quote now cfg client params =
        ([], None, 400, Some (ErrorsNew (''Could not parse time range: '' @ Error Quote e)))"
    by (simp add: getFlows_def StatusBadRequest_def)
next
  assume h: "Get params limitKey \<noteq> [] \<and> ParseInt (Get params limitKey) = Inl e"
  then show l: "getLimit Quote params = Inl (ErrorsNew (''Could not parse limit: '' @ Error Quote e))"
    by (simp add: getLimit_def)
  then show "fst (snd (getFlows c Quote now cfg client params)) = None"
    by (simp add: getFlows_def split: sum.splits)
  from l show "fst (snd (snd (getFlows c Quote now cfg client params))) = 400"
    by (simp add: getFlows_def StatusBadRequest_def split: sum.splits)
next
  assume h: "Get params limitKey \<noteq> [] \<and> ParseInt (Get params limitKey) = Inl e \<and>
      getStartTime Quote now params = Inr start"
  then have "getLimit Quote params = Inl (ErrorsNew (''Could not parse limit: '' @ Error Quote e))"
    by (simp add: getLimit_def)
  with h show "getFlows c Quote now cfg client params =
        ([], None, 400, Some (ErrorsNew (''Could not parse limit: '' @ Error Quote e)))"
    by (simp add: getFlows_def StatusBadRequest_def)
next
  assume "Get params limitKey = []"
  then show "getLimit Quote params = Inr ([], 0)"
    by (simp add: getLimit_def)
qed

text \<open>Claim C8 on \<open>timeRange=abc\<close>, on \<open>limit=12x\<close> and on a request without limit.\<close>

theorem C8_witness:
  "getFlows (collaborators_spec []) (\<lambda>s. CHR 0x22 # s @ [CHR 0x22]) 1700000000 () (\<lambda>q. Inr [q])
      [timeRangeKey \<mapsto> [''abc'']]
     = ([], None, 400,
        Some (ErrorsNew (''Could not parse time range: strconv.ParseInt: parsing '' @
                         [CHR 0x22] @ ''abc'' @ [CHR 0x22] @ '': invalid syntax'')))
   \<and> getFlows (collaborators_spec []) (\<lambda>s. CHR 0x22 # s @ [CHR 0x22]) 1700000000 () (\<lambda>q. Inr [q])
      [limitKey \<mapsto> [''12x'']]
     = ([], None, 400,
        Some (ErrorsNew (''Could not parse limit: strconv.ParseInt: parsing '' @
                         [CHR 0x22] @ ''12x'' @ [CHR 0x22] @ '': invalid syntax'')))
   \<and> getLimit (\<lambda>s. CHR 0x22 # s @ [CHR 0x22]) Map.empty = Inr ([], 0)"
proof (intro conjI)
  let ?c = "collaborators_spec [] ::
    (unit, FlowQueryBuilder, string backend, string StreamMerger, string list) collaborators"
  let ?client = "(\<lambda>q. Inr [q]) :: string backend"
  let ?Q = "\<lambda>s. CHR 0x22 # s @ [CHR 0x22]"
  let ?p1 = "[timeRangeKey \<mapsto> [''abc'']] :: Values"
  let ?p2 = "[limitKey \<mapsto> [''12x'']] :: Values"
  let ?p3 = "Map.empty :: Values"
  have h1: "Get ?p1 startTimeKey = [] \<and> Get ?p1 timeRangeKey \<noteq> [] \<and>
      ParseInt (Get ?p1 timeRangeKey) = Inl (NumError ''ParseInt'' ''abc'' ErrSyntax)"
    by (simp add: Get_def startTimeKey_def timeRangeKey_def ParseInt_abc)
  have h2: "Get ?p2 limitKey \<noteq> [] \<and>
      ParseInt (Get ?p2 limitKey) = Inl (NumError ''ParseInt'' ''12x'' ErrSyntax) \<and>
      getStartTime ?Q 1700000000 ?p2 = Inr []"
    by (simp add: params_simps ParseInt_12x)
  have h3: "Get ?p3 limitKey = []"
    by (simp add: Get_def)
  from C8_parse_errors [of ?p1 _ ?Q 1700000000 ?c "()" ?client, THEN conjunct1, rule_format, OF h1]
  show "getFlows ?c ?Q 1700000000 () ?client ?p1
     = ([], None, 400,
        Some (ErrorsNew (''Could not parse time range: strconv.ParseInt: parsing '' @
                         [CHR 0x22] @ ''abc'' @ [CHR 0x22] @ '': invalid syntax'')))"
    by simp
  from C8_parse_errors [of ?p2 _ ?Q 1700000000 ?c "()" ?client,
      THEN conjunct2, THEN conjunct2, THEN conjunct1, rule_format, OF h2]
  show "getFlows ?c ?Q 1700000000 () ?client ?p2
     = ([], None, 400,
        Some (ErrorsNew (''Could not parse limit: strconv.ParseInt: parsing '' @
                         [CHR 0x22] @ ''12x'' @ [CHR 0x22] @ '': invalid syntax'')))"
    by simp
  from C8_parse_errors [of ?p3 _ ?Q 1700000000 ?c "()" ?client,
      THEN conjunct2, THEN conjunct2, THEN conjunct2, rule_format, OF h3]
  show "getLimit ?Q ?p3 = Inr ([], 0)"
    by simp
qed

text \<open>
  Claim C8 as stated fails: when \<open>startTime\<close> is given, \<open>timeRange\<close> is not read, so a
  \<open>timeRange\<close> that is not a valid integer raises no error and the request is answered
  with status 200.
\<close>

theorem C8_timeRange_ignored:
  "Get [startTimeKey \<mapsto> [''1650000000''], timeRangeKey \<mapsto> [''abc'']] timeRangeKey = ''abc''
   \<and> ParseInt ''abc'' = Inl (NumError ''ParseInt'' ''abc'' ErrSyntax)
   \<and> getStartTime (\<lambda>s. s) 1700000000 [startTimeKey \<mapsto> [''1650000000''], timeRangeKey \<mapsto> [''abc'']]
       = Inr ''1650000000''
   \<and> getFlows (collaborators_spec []) (\<lambda>s. s) 1700000000 () (\<lambda>q. Inr [q])
        [startTimeKey \<mapsto> [''1650000000''], timeRangeKey \<mapsto> [''abc'']]
       = ([FetchSingle ''1650000000;;;;''], Some [''1650000000;;;;''], 200, None)"
proof (intro conjI)
  let ?p = "[startTimeKey \<mapsto> [''1650000000''], timeRangeKey \<mapsto> [''abc'']] :: Values"
  show "Get ?p timeRangeKey = ''abc''"
    by (simp add: Get_def)
  show "ParseInt ''abc'' = Inl (NumError ''ParseInt'' ''abc'' ErrSyntax)"
    by (rule ParseInt_abc)
  show s: "getStartTime (\<lambda>s. s) 1700000000 ?p = Inr ''1650000000''"
    by (simp add: params_simps)
  have l: "getLimit (\<lambda>s. s) ?p = Inr ([], 0)"
    by (simp add: params_simps)
  have f: "parseFilters (Get ?p filtersKey) = Inr [[]]"
    by (simp add: params_simps parseFilters_def QueryUnescape_def Split_def)
  have e: "Get ?p endTimeKey = []" "Get ?p reporterKey = []"
    by (simp_all add: params_simps)
  show "getFlows (collaborators_spec []) (\<lambda>s. s) 1700000000 () (\<lambda>q. Inr [q]) ?p
       = ([FetchSingle ''1650000000;;;;''], Some [''1650000000;;;;''], 200, None)"
    by (simp add: getFlows_parsed [OF s l f] e fetchFlows_def spec_simps Let_def)
qed

end
